theory Spec2Isabelle
  imports Complex_Main
begin

section \<open>JavaScript numbers\<close>

text \<open>
  The engine (\<^verbatim>\<open>src/dcf-engine.js\<close>) computes on JavaScript numbers. They are modelled
  as exact reals extended with the three non-finite values of IEEE arithmetic: division by
  zero is modelled, while the rounding, the overflow and the underflow of doubles are not.
  The operators below follow the IEEE rules for the special values. The sign of zero is not
  tracked: the only denominators of the engine that can be zero are
  \<^verbatim>\<open>Math.pow(1 + r, t)\<close> with \<^verbatim>\<open>1 + r\<close> equal to zero, which is \<^verbatim>\<open>+0\<close>, so a zero
  denominator counts as \<^verbatim>\<open>+0\<close>.

  A double computation differs from the exact one by rounding, and it can leave the range
  of doubles and give \<^verbatim>\<open>Infinity\<close> or \<^verbatim>\<open>NaN\<close> where the exact value is finite. The
  theorems on the sign and on the order of the values returned (C4, C7) are therefore
  stated as comparisons that are false on \<^verbatim>\<open>NaN\<close>, and the order is claimed only for growth
  rates far enough apart for rounding not to matter.
\<close>

datatype jsnum = Fin real | PInf | NInf | NaN

fun jneg :: "jsnum \<Rightarrow> jsnum" where
  "jneg (Fin a) = Fin (- a)"
| "jneg PInf = NInf"
| "jneg NInf = PInf"
| "jneg NaN = NaN"

fun jadd :: "jsnum \<Rightarrow> jsnum \<Rightarrow> jsnum" where
  "jadd (Fin a) (Fin b) = Fin (a + b)"
| "jadd NaN _ = NaN"
| "jadd _ NaN = NaN"
| "jadd PInf NInf = NaN"
| "jadd NInf PInf = NaN"
| "jadd PInf _ = PInf"
| "jadd _ PInf = PInf"
| "jadd NInf _ = NInf"
| "jadd _ NInf = NInf"

definition jsub :: "jsnum \<Rightarrow> jsnum \<Rightarrow> jsnum" where
  "jsub a b = jadd a (jneg b)"

text \<open>The product of an infinity with a finite factor: zero gives NaN, else the sign rule.\<close>

definition inf_times :: "bool \<Rightarrow> real \<Rightarrow> jsnum" where
  "inf_times positive b =
     (if b = 0 then NaN else if (0 < b) = positive then PInf else NInf)"

fun jmul :: "jsnum \<Rightarrow> jsnum \<Rightarrow> jsnum" where
  "jmul (Fin a) (Fin b) = Fin (a * b)"
| "jmul NaN _ = NaN"
| "jmul _ NaN = NaN"
| "jmul PInf (Fin b) = inf_times True b"
| "jmul NInf (Fin b) = inf_times False b"
| "jmul (Fin a) PInf = inf_times True a"
| "jmul (Fin a) NInf = inf_times False a"
| "jmul PInf PInf = PInf"
| "jmul NInf NInf = PInf"
| "jmul PInf NInf = NInf"
| "jmul NInf PInf = NInf"

fun jdiv :: "jsnum \<Rightarrow> jsnum \<Rightarrow> jsnum" where
  "jdiv (Fin a) (Fin b) =
     (if b \<noteq> 0 then Fin (a / b)
      else if a = 0 then NaN else if 0 < a then PInf else NInf)"
| "jdiv NaN _ = NaN"
| "jdiv _ NaN = NaN"
| "jdiv (Fin a) PInf = Fin 0"
| "jdiv (Fin a) NInf = Fin 0"
| "jdiv PInf (Fin b) = (if 0 \<le> b then PInf else NInf)"
| "jdiv NInf (Fin b) = (if 0 \<le> b then NInf else PInf)"
| "jdiv PInf PInf = NaN"
| "jdiv PInf NInf = NaN"
| "jdiv NInf PInf = NaN"
| "jdiv NInf NInf = NaN"

fun jabs :: "jsnum \<Rightarrow> jsnum" where
  "jabs (Fin a) = Fin \<bar>a\<bar>"
| "jabs PInf = PInf"
| "jabs NInf = PInf"
| "jabs NaN = NaN"

text \<open>\<^verbatim>\<open>a < b\<close>: every comparison with NaN is false.\<close>

fun jlt :: "jsnum \<Rightarrow> jsnum \<Rightarrow> bool" where
  "jlt (Fin a) (Fin b) = (a < b)"
| "jlt NaN _ = False"
| "jlt _ NaN = False"
| "jlt _ NInf = False"
| "jlt PInf _ = False"
| "jlt NInf _ = True"
| "jlt _ PInf = True"

text \<open>
  \<^verbatim>\<open>Math.pow(x, y)\<close> for a finite base and a finite exponent. A zero base with a
  negative exponent gives \<^verbatim>\<open>Infinity\<close>; an integral exponent gives the repeated product
  or its inverse, for a base of either sign; a negative base with an exponent that is not
  integral gives \<^verbatim>\<open>NaN\<close>.
\<close>

definition jpow :: "real \<Rightarrow> real \<Rightarrow> jsnum" where
  "jpow x y =
     (if x = 0 \<and> y < 0 then PInf
      else if y = of_int \<lfloor>y\<rfloor> then Fin (x powi \<lfloor>y\<rfloor>)
      else if x < 0 then NaN
      else Fin (x powr y))"

text \<open>\<^verbatim>\<open>Math.round(x * 100) / 100\<close>; \<^verbatim>\<open>Math.round\<close> rounds a half towards plus infinity.\<close>

definition round2 :: "real \<Rightarrow> real" where
  "round2 x = real_of_int \<lfloor>x * 100 + 1 / 2\<rfloor> / 100"

section \<open>The valuation function\<close>

text \<open>
  The loop \<^verbatim>\<open>for (let t = 1; t <= n; t++) pvEarnings += ...\<close> of
  \<^verbatim>\<open>calculateImpliedEquityValue\<close>, with the running total as accumulator. The counter
  \<open>t\<close> takes the values 1, 2, 3, ...; the bound \<open>n\<close> is any number, so the loop adds one
  term for each whole year up to \<open>n\<close>.
\<close>

function pvEarnings_loop :: "real \<Rightarrow> real \<Rightarrow> real \<Rightarrow> real \<Rightarrow> int \<Rightarrow> jsnum \<Rightarrow> jsnum" where
  "pvEarnings_loop currentPAT g r n t pvEarnings =
     (if of_int t \<le> n
      then pvEarnings_loop currentPAT g r n (t + 1)
             (jadd pvEarnings
                (jdiv (jmul (Fin currentPAT) (jpow (1 + g) (of_int t))) (jpow (1 + r) (of_int t))))
      else pvEarnings)"
  by pat_completeness auto
termination
  by (relation "measure (\<lambda>(currentPAT, g, r, n, t, pvEarnings). nat (\<lfloor>n\<rfloor> + 1 - t))")
    (auto simp: le_floor_iff)

text \<open>
  \<^verbatim>\<open>calculateImpliedEquityValue(currentPAT, growthRatePct, discountRatePct, forecastPeriod, exitPE)\<close>.
  The arguments are finite numbers. The forecast period is meant to be a count of years, but
  the code accepts any number: the loop then counts the whole years, while \<^verbatim>\<open>Math.pow\<close>
  takes the period as it is.
\<close>

definition calculateImpliedEquityValue :: "real \<Rightarrow> real \<Rightarrow> real \<Rightarrow> real \<Rightarrow> real \<Rightarrow> jsnum" where
  "calculateImpliedEquityValue currentPAT growthRatePct discountRatePct forecastPeriod exitPE =
     (if currentPAT \<le> 0 \<or> exitPE \<le> 0 \<or> forecastPeriod \<le> 0 then Fin 0
      else
        let g = growthRatePct / 100;
            r = discountRatePct / 100;
            n = forecastPeriod;
            pvEarnings =
              (if \<bar>r - g\<bar> < 0.0001
               then pvEarnings_loop currentPAT g r n 1 (Fin 0)
               else jmul (Fin (currentPAT * (1 + g)))
                      (jdiv (jsub (Fin 1) (jmul (jpow (1 + g) n) (jpow (1 + r) (- n))))
                            (Fin (r - g))));
            terminalPAT = jmul (Fin currentPAT) (jpow (1 + g) n);
            terminalValue = jdiv (jmul terminalPAT (Fin exitPE)) (jpow (1 + r) n)
        in jadd pvEarnings terminalValue)"

section \<open>The signal classification\<close>

text \<open>\<^verbatim>\<open>getSignal(expectationGap)\<close>; \<open>None\<close> stands for \<^verbatim>\<open>null\<close> and \<^verbatim>\<open>undefined\<close>.\<close>

definition getSignal :: "real option \<Rightarrow> string" where
  "getSignal expectationGap =
     (case expectationGap of
        None \<Rightarrow> ''N/A''
      | Some gap \<Rightarrow>
          if gap > 5 then ''Strong Buy''
          else if gap > 2 then ''Buy''
          else if gap < - 5 then ''Sell''
          else if gap < - 2 then ''Caution''
          else ''Hold'')"

section \<open>The growth solver\<close>

definition maxIterations :: nat where
  "maxIterations = 500"

text \<open>
  The bisection loop of \<^verbatim>\<open>solveImpliedGrowthRate\<close>: \<open>i\<close> is the loop counter, \<open>low\<close> and
  \<open>high\<close> the bracket. Both exits of the loop return a number.
\<close>

function solve_loop ::
  "real \<Rightarrow> real \<Rightarrow> real \<Rightarrow> real \<Rightarrow> real \<Rightarrow> real \<Rightarrow> nat \<Rightarrow> real \<Rightarrow> real \<Rightarrow> real" where
  "solve_loop currentPAT target tolerance discountRatePct forecastPeriod exitPE i low high =
     (if i < maxIterations
      then
        let mid = (low + high) / 2;
            val = calculateImpliedEquityValue currentPAT mid discountRatePct forecastPeriod exitPE
        in if jlt (jabs (jsub val (Fin target))) (Fin tolerance) then round2 mid
           else if jlt val (Fin target)
           then solve_loop currentPAT target tolerance discountRatePct forecastPeriod exitPE
                  (i + 1) mid high
           else solve_loop currentPAT target tolerance discountRatePct forecastPeriod exitPE
                  (i + 1) low mid
      else round2 ((low + high) / 2))"
  by pat_completeness auto
termination
  by (relation "measure (\<lambda>(currentPAT, target, tolerance, discountRatePct, forecastPeriod,
        exitPE, i, low, high). maxIterations - i)") auto

text \<open>
  \<^verbatim>\<open>solveImpliedGrowthRate(currentPAT, marketCap, discountRatePct, forecastPeriod, exitPE)\<close>;
  \<open>None\<close> is the \<^verbatim>\<open>null\<close> that the function returns for degenerate inputs.
\<close>

definition solveImpliedGrowthRate :: "real \<Rightarrow> real \<Rightarrow> real \<Rightarrow> real \<Rightarrow> real \<Rightarrow> real option" where
  "solveImpliedGrowthRate currentPAT marketCap discountRatePct forecastPeriod exitPE =
     (if currentPAT \<le> 0 \<or> marketCap \<le> 0 \<or> exitPE \<le> 0 then None
      else
        let low = - 90;
            high = 200;
            target = marketCap;
            tolerance = marketCap * 0.00001
        in Some (solve_loop currentPAT target tolerance discountRatePct forecastPeriod exitPE
                   0 low high))"

section \<open>The default assumptions\<close>

text \<open>
  \<^verbatim>\<open>String.prototype.toLowerCase\<close> on the ASCII letters (a \<open>char\<close> is a byte), and
  \<^verbatim>\<open>String.prototype.includes\<close>: the key occurs in the string as a contiguous run.
\<close>

definition toLowerCase_char :: "char \<Rightarrow> char" where
  "toLowerCase_char c =
     (let k = (of_char c :: nat) in if 65 \<le> k \<and> k \<le> 90 then char_of (k + 32) else c)"

definition toLowerCase :: "string \<Rightarrow> string" where
  "toLowerCase s = map toLowerCase_char s"

fun startsWith :: "string \<Rightarrow> string \<Rightarrow> bool" where
  "startsWith s [] = True"
| "startsWith [] (k # ks) = False"
| "startsWith (c # cs) (k # ks) = (c = k \<and> startsWith cs ks)"

fun includes_str :: "string \<Rightarrow> string \<Rightarrow> bool" where
  "includes_str [] key = (key = [])"
| "includes_str (c # cs) key = (startsWith (c # cs) key \<or> includes_str cs key)"

text \<open>The object literal \<^verbatim>\<open>SECTOR_PE\<close>, in the order \<^verbatim>\<open>Object.entries\<close> lists its keys.\<close>

definition SECTOR_PE :: "(string \<times> real) list" where
  "SECTOR_PE =
     [(''fmcg'', 45), (''it'', 22), (''information technology'', 22), (''pharma'', 30),
      (''pharmaceutical'', 30), (''healthcare'', 30), (''bank'', 15), (''banking'', 15),
      (''nbfc'', 20), (''financial'', 18), (''insurance'', 35), (''auto'', 20),
      (''automobile'', 20), (''chemical'', 25), (''capital goods'', 25), (''cement'', 25),
      (''construction'', 18), (''consumer durable'', 35), (''consumer'', 30),
      (''diversified'', 20), (''energy'', 12), (''fertilizer'', 15), (''infrastructure'', 15),
      (''logistics'', 25), (''media'', 25), (''entertainment'', 25), (''metal'', 12),
      (''mining'', 12), (''oil'', 10), (''gas'', 10), (''petroleum'', 10), (''power'', 10),
      (''utility'', 10), (''real estate'', 15), (''realty'', 15), (''retail'', 40),
      (''sugar'', 15), (''telecom'', 20), (''textile'', 15), (''tourism'', 25), (''hotel'', 25),
      (''hospitality'', 25), (''trading'', 12), (''manufacturing'', 22), (''technology'', 30),
      (''software'', 25)]"

text \<open>
  The loop \<^verbatim>\<open>for (const [key, val] of Object.entries(SECTOR_PE))\<close>, which stops at the
  first key that the lower-cased sector includes; \<open>exitPE\<close> is the value held before it.
\<close>

fun sector_loop :: "string \<Rightarrow> (string \<times> real) list \<Rightarrow> real \<Rightarrow> real" where
  "sector_loop s [] exitPE = exitPE"
| "sector_loop s ((key, val) # entries) exitPE =
     (if includes_str s key then val else sector_loop s entries exitPE)"

record assumptions =
  forecastYears :: int
  discountRate :: real
  terminalGrowth :: real
  exitPE :: real
  expectedPatCagr :: real
  category :: string

text \<open>
  \<^verbatim>\<open>getDefaultAssumptions(marketCapCr, sector)\<close>. The sector is a string or \<^verbatim>\<open>null\<close>
  (\<open>None\<close>); \<^verbatim>\<open>if (sector)\<close> is false for \<^verbatim>\<open>null\<close> and for the empty string.
\<close>

definition getDefaultAssumptions :: "real \<Rightarrow> string option \<Rightarrow> assumptions" where
  "getDefaultAssumptions marketCapCr sector =
     (let (fy, dr, patCagr, cat) =
            (if marketCapCr < 500 then (20, 20, 25, ''Micro Cap'')
             else if marketCapCr < 5000 then (20, 20, 25, ''Small Cap'')
             else if marketCapCr < 20000 then (15, 18, 18, ''Mid Cap'')
             else if marketCapCr < 50000 then (15, 16, 15, ''Large-Mid Cap'')
             else if marketCapCr < 200000 then (10, 15, 12, ''Large Cap'')
             else (10, 13, 10, ''Mega Cap''));
          pe = (case sector of
                  None \<Rightarrow> 20
                | Some sec \<Rightarrow> if sec = [] then 20 else sector_loop (toLowerCase sec) SECTOR_PE 20)
      in \<lparr>forecastYears = fy, discountRate = dr, terminalGrowth = 4, exitPE = pe,
          expectedPatCagr = patCagr, category = cat\<rparr>)"

section \<open>The bisection as the specification describes it\<close>

text \<open>
  These definitions follow the wording of the specification (section 4.2), not the code;
  the solver is compared with them below. A bracket is a pair \<open>(low, high)\<close>. The
  tolerance test compares the valuation at a midpoint with the target; a narrowing step
  raises \<open>low\<close> to the midpoint when the valuation there is below the target and lowers
  \<open>high\<close> to it otherwise; \<open>spec_bracket k\<close> is the bracket after \<open>k\<close> narrowing steps from
  \<open>(-90, 200)\<close>.
\<close>

definition midpoint :: "real \<times> real \<Rightarrow> real" where
  "midpoint = (\<lambda>(low, high). (low + high) / 2)"

definition spec_within_tolerance :: "real \<Rightarrow> real \<Rightarrow> real \<Rightarrow> real \<Rightarrow> real \<Rightarrow> real \<Rightarrow> bool" where
  "spec_within_tolerance PAT target rpct n pe mid =
     jlt (jabs (jsub (calculateImpliedEquityValue PAT mid rpct n pe) (Fin target)))
         (Fin (target * 0.00001))"

definition spec_narrow :: "real \<Rightarrow> real \<Rightarrow> real \<Rightarrow> real \<Rightarrow> real \<Rightarrow> real \<times> real \<Rightarrow> real \<times> real" where
  "spec_narrow PAT target rpct n pe =
     (\<lambda>(low, high).
        if jlt (calculateImpliedEquityValue PAT ((low + high) / 2) rpct n pe) (Fin target)
        then ((low + high) / 2, high)
        else (low, (low + high) / 2))"

definition spec_bracket :: "real \<Rightarrow> real \<Rightarrow> real \<Rightarrow> real \<Rightarrow> real \<Rightarrow> nat \<Rightarrow> real \<times> real" where
  "spec_bracket PAT target rpct n pe k = (spec_narrow PAT target rpct n pe ^^ k) (- 90, 200)"

section \<open>Proof setup\<close>

text \<open>
  The equations of the two loops are recursive without a pattern to guard them; they are
  unfolded one step at a time, by substitution.
\<close>

declare solve_loop.simps [simp del]
declare pvEarnings_loop.simps [simp del]

section \<open>Powers\<close>

lemma jpow_of_int: "jpow x (of_int k) = (if x = 0 \<and> k < 0 then PInf else Fin (x powi k))"
  by (simp add: jpow_def)

lemma jpow_of_int_nonneg [simp]: "0 \<le> k \<Longrightarrow> jpow x (of_int k) = Fin (x powi k)"
  by (simp add: jpow_of_int)

lemma jpow_of_int_nonzero [simp]: "x \<noteq> 0 \<Longrightarrow> jpow x (of_int k) = Fin (x powi k)"
  by (simp add: jpow_of_int)

lemma jpow_minus_of_int:
  "jpow x (- of_int k) = (if x = 0 \<and> 0 < k then PInf else Fin (x powi (- k)))"
  using jpow_of_int [of x "- k"] by simp

lemma jpow_numeral [simp]: "jpow x (numeral k) = Fin (x ^ numeral k)"
  using jpow_of_int [of x "numeral k"] by simp

lemma jpow_one [simp]: "jpow x 1 = Fin x"
  using jpow_of_int [of x 1] by simp

lemma jpow_neg_numeral [simp]:
  "jpow x (- numeral k) = (if x = 0 then PInf else Fin (inverse (x ^ numeral k)))"
  using jpow_of_int [of x "- numeral k"] by (simp add: power_int_minus)

lemma jpow_neg_one [simp]: "jpow x (- 1) = (if x = 0 then PInf else Fin (inverse x))"
  using jpow_of_int [of x "- 1"] by simp



section \<open>Degenerate inputs of the valuation function\<close>

text \<open>
  C5. Whenever the profit, the exit multiple or the forecast period is not positive,
  \<^verbatim>\<open>calculateImpliedEquityValue\<close> returns the number 0, whatever the other arguments are;
  the result is a value of the function, no error is involved.
\<close>

theorem calculateImpliedEquityValue_degenerate:
  "PAT \<le> 0 \<or> pe \<le> 0 \<or> n \<le> 0 \<Longrightarrow>
   calculateImpliedEquityValue PAT growthRatePct discountRatePct n pe = Fin 0"
  by (simp add: calculateImpliedEquityValue_def)

theorem calculateImpliedEquityValue_degenerate_witness:
  "((0::real) \<le> 0 \<or> (45::real) \<le> 0 \<or> (10::real) \<le> 0) \<and>
   calculateImpliedEquityValue 0 13 15 10 45 = Fin 0"
  using calculateImpliedEquityValue_degenerate [of 0 45 10 13 15] by simp

section \<open>Strings\<close>

lemma startsWith_iff: "startsWith s key \<longleftrightarrow> (\<exists>q. s = key @ q)"
  by (induction s key rule: startsWith.induct) auto

lemma includes_str_iff: "includes_str s key \<longleftrightarrow> (\<exists>p q. s = p @ key @ q)"
proof (induction s)
  case Nil
  then show ?case by auto
next
  case (Cons c cs)
  show ?case
  proof
    assume "includes_str (c # cs) key"
    then consider "startsWith (c # cs) key" | "includes_str cs key" by auto
    then show "\<exists>p q. c # cs = p @ key @ q"
    proof cases
      case 1
      then obtain q where "c # cs = key @ q" by (auto simp: startsWith_iff)
      then have "c # cs = [] @ key @ q" by simp
      then show ?thesis by blast
    next
      case 2
      then obtain p q where "cs = p @ key @ q" using Cons.IH by blast
      then have "c # cs = (c # p) @ key @ q" by simp
      then show ?thesis by blast
    qed
  next
    assume "\<exists>p q. c # cs = p @ key @ q"
    then obtain p q where pq: "c # cs = p @ key @ q" by blast
    show "includes_str (c # cs) key"
    proof (cases p)
      case Nil
      with pq have "startsWith (c # cs) key" by (auto simp: startsWith_iff)
      then show ?thesis by simp
    next
      case (Cons a p')
      with pq have "cs = p' @ key @ q" by simp
      then have "includes_str cs key" using Cons.IH by blast
      then show ?thesis by simp
    qed
  qed
qed

lemma sector_loop_find:
  "sector_loop s entries d =
     (case find (\<lambda>(key, v). includes_str s key) entries of None \<Rightarrow> d | Some (key, v) \<Rightarrow> v)"
  by (induction s entries d rule: sector_loop.induct) auto

lemma toLowerCase_example: "toLowerCase ''Indian IT Services'' = ''indian it services''"
  by code_simp

section \<open>The signal bands\<close>

text \<open>
  C8, as the specification states it, fails: an expectation gap of exactly 5 is not above
  the threshold of the first band, and the second band (\<open>gap > 2\<close>) takes it, so the
  signal is \<^verbatim>\<open>Buy\<close> and not \<^verbatim>\<open>Hold\<close>.
\<close>

theorem getSignal_five_not_Hold:
  "getSignal (Some 5) = ''Buy'' \<and> getSignal (Some 5) \<noteq> ''Hold''"
  by (simp add: getSignal_def)

text \<open>
  C8, amended. A gap of exactly 5 yields \<^verbatim>\<open>Buy\<close>, 5.01 yields \<^verbatim>\<open>Strong Buy\<close>, exactly -2
  yields \<^verbatim>\<open>Hold\<close> and -2.01 yields \<^verbatim>\<open>Caution\<close>; an undefined gap yields \<^verbatim>\<open>N/A\<close>; and for
  every gap the bands \<open>gap > 5\<close>, \<open>gap > 2\<close>, \<open>gap < -5\<close>, \<open>gap < -2\<close> are tried in this
  order, the first that holds giving the signal, \<^verbatim>\<open>Hold\<close> when none does.
\<close>

theorem getSignal_bands:
  "getSignal (Some 5) = ''Buy'' \<and>
   getSignal (Some 5.01) = ''Strong Buy'' \<and>
   getSignal (Some (- 2)) = ''Hold'' \<and>
   getSignal (Some (- 2.01)) = ''Caution'' \<and>
   getSignal None = ''N/A'' \<and>
   getSignal (Some gap) =
     (if gap > 5 then ''Strong Buy''
      else if gap > 2 then ''Buy''
      else if gap < - 5 then ''Sell''
      else if gap < - 2 then ''Caution''
      else ''Hold'')"
  by (simp add: getSignal_def)

section \<open>The default assumptions are a lookup\<close>

text \<open>
  C9. The market capitalisation selects one of six bands, bounded by 500, 5000, 20000,
  50000 and 200000, and the band fixes the forecast period, the discount rate, the expected
  growth and the category label; 499 and 500 lie in different bands. The exit multiple is
  the value of the first entry of \<open>SECTOR_PE\<close> whose key occurs as a contiguous run in the
  lower-cased sector label, and 20 when there is no label, when the label is empty or when
  no key occurs in it. For the label \<^verbatim>\<open>Indian IT Services\<close> the first such entry is
  \<^verbatim>\<open>it\<close>, and the exit multiple is its value 22.
\<close>

theorem getDefaultAssumptions_lookup:
  "(forecastYears (getDefaultAssumptions m sector), discountRate (getDefaultAssumptions m sector),
    expectedPatCagr (getDefaultAssumptions m sector), category (getDefaultAssumptions m sector)) =
     (if m < 500 then (20, 20, 25, ''Micro Cap'')
      else if m < 5000 then (20, 20, 25, ''Small Cap'')
      else if m < 20000 then (15, 18, 18, ''Mid Cap'')
      else if m < 50000 then (15, 16, 15, ''Large-Mid Cap'')
      else if m < 200000 then (10, 15, 12, ''Large Cap'')
      else (10, 13, 10, ''Mega Cap'')) \<and>
   category (getDefaultAssumptions 499 (Some '''')) \<noteq> category (getDefaultAssumptions 500 (Some '''')) \<and>
   exitPE (getDefaultAssumptions m sector) =
     (case sector of
        None \<Rightarrow> 20
      | Some sec \<Rightarrow>
          (case find (\<lambda>(key, v). \<exists>p q. toLowerCase sec = p @ key @ q) SECTOR_PE of
             None \<Rightarrow> 20
           | Some (key, v) \<Rightarrow> v)) \<and>
   exitPE (getDefaultAssumptions m (Some '''')) = 20 \<and>
   exitPE (getDefaultAssumptions m (Some ''Indian IT Services'')) = 22 \<and>
   find (\<lambda>(key, v). \<exists>p q. toLowerCase ''Indian IT Services'' = p @ key @ q) SECTOR_PE =
     Some (''it'', 22)"
proof (intro conjI)
  show "(forecastYears (getDefaultAssumptions m sector), discountRate (getDefaultAssumptions m sector),
    expectedPatCagr (getDefaultAssumptions m sector), category (getDefaultAssumptions m sector)) =
     (if m < 500 then (20, 20, 25, ''Micro Cap'')
      else if m < 5000 then (20, 20, 25, ''Small Cap'')
      else if m < 20000 then (15, 18, 18, ''Mid Cap'')
      else if m < 50000 then (15, 16, 15, ''Large-Mid Cap'')
      else if m < 200000 then (10, 15, 12, ''Large Cap'')
      else (10, 13, 10, ''Mega Cap''))"
    by (simp add: getDefaultAssumptions_def)
  show "category (getDefaultAssumptions 499 (Some '''')) \<noteq> category (getDefaultAssumptions 500 (Some ''''))"
    by (simp add: getDefaultAssumptions_def)
  have empty: "find (\<lambda>(key, v). \<exists>p q. [] = p @ key @ q) SECTOR_PE = None"
    by (simp add: SECTOR_PE_def)
  show "exitPE (getDefaultAssumptions m sector) =
     (case sector of
        None \<Rightarrow> 20
      | Some sec \<Rightarrow>
          (case find (\<lambda>(key, v). \<exists>p q. toLowerCase sec = p @ key @ q) SECTOR_PE of
             None \<Rightarrow> 20
           | Some (key, v) \<Rightarrow> v))"
  proof (cases sector)
    case None
    then show ?thesis by (simp add: getDefaultAssumptions_def)
  next
    case (Some sec)
    show ?thesis
    proof (cases "sec = []")
      case True
      with Some empty show ?thesis
        by (simp add: getDefaultAssumptions_def toLowerCase_def)
    next
      case False
      with Some show ?thesis
        by (simp add: getDefaultAssumptions_def sector_loop_find includes_str_iff)
    qed
  qed
  show "exitPE (getDefaultAssumptions m (Some '''')) = 20"
    by (simp add: getDefaultAssumptions_def)
  show "exitPE (getDefaultAssumptions m (Some ''Indian IT Services'')) = 22"
    by (simp add: getDefaultAssumptions_def toLowerCase_example SECTOR_PE_def)
  show "find (\<lambda>(key, v). \<exists>p q. toLowerCase ''Indian IT Services'' = p @ key @ q) SECTOR_PE =
          Some (''it'', 22)"
    by (simp add: toLowerCase_example SECTOR_PE_def flip: includes_str_iff)
qed

section \<open>Degenerate inputs of the solver\<close>

text \<open>
  C6. \<^verbatim>\<open>solveImpliedGrowthRate\<close> returns \<^verbatim>\<open>null\<close> exactly when the profit, the market
  capitalisation or the exit multiple is not positive; on every other input it returns a
  number. The guard is the first statement of the function, before the loop that calls the
  valuation function.
\<close>

theorem solveImpliedGrowthRate_null_iff:
  "solveImpliedGrowthRate PAT marketCap rpct n pe = None \<longleftrightarrow>
     PAT \<le> 0 \<or> marketCap \<le> 0 \<or> pe \<le> 0"
  by (simp add: solveImpliedGrowthRate_def)


theorem solveImpliedGrowthRate_null_iff_witness:
  "solveImpliedGrowthRate 0 93800 15 10 45 = None \<and>
   solveImpliedGrowthRate 1737 93800 15 10 45 \<noteq> None"
  using solveImpliedGrowthRate_null_iff [of 0 93800 15 10 45]
    solveImpliedGrowthRate_null_iff [of 1737 93800 15 10 45] by simp

lemma round2_upper_end: "round2 (200 - 290 / 2 ^ 501) = 200"
proof -
  have "\<lfloor>(200 - 290 / 2 ^ 501) * 100 + 1 / 2 :: real\<rfloor> = 20000"
    by (rule floor_unique) simp_all
  then show ?thesis by (simp add: round2_def)
qed

lemma solve_loop_zero_valuation:
  assumes "0 < target" and "n \<le> 0"
  shows "i + k = maxIterations \<Longrightarrow>
         solve_loop PAT target (target * 0.00001) rpct n pe i low 200 =
           round2 (200 - (200 - low) / 2 ^ (k + 1))"
proof (induction k arbitrary: i low)
  case 0
  then have "\<not> i < maxIterations" by simp
  then show ?case
    by (subst solve_loop.simps) (simp add: field_simps)
next
  case (Suc k)
  then have lt: "i < maxIterations" and rest: "(i + 1) + k = maxIterations" by simp_all
  have val: "calculateImpliedEquityValue PAT ((low + 200) / 2) rpct n pe = Fin 0"
    using assms(2) by (simp add: calculateImpliedEquityValue_def)
  have "solve_loop PAT target (target * 0.00001) rpct n pe i low 200 =
        solve_loop PAT target (target * 0.00001) rpct n pe (i + 1) ((low + 200) / 2) 200"
    using lt assms(1) by (subst solve_loop.simps) (simp add: val jsub_def Let_def)
  also have "\<dots> = round2 (200 - (200 - (low + 200) / 2) / 2 ^ (k + 1))"
    using Suc.IH [OF rest] .
  also have "200 - (200 - (low + 200) / 2) / 2 ^ (k + 1) = 200 - (200 - low) / 2 ^ (Suc k + 1)"
    by (simp add: field_simps)
  finally show ?case .
qed

text \<open>
  C10. With a positive profit, target and exit multiple but a forecast period that is not
  positive, the solver does not return \<^verbatim>\<open>null\<close>: the valuation is 0 at every midpoint,
  each of the 500 steps raises the lower bound, and the rounded midpoint of the last
  bracket is 200.
\<close>

theorem solveImpliedGrowthRate_nonpositive_horizon:
  assumes "0 < PAT" and "0 < marketCap" and "0 < pe" and "n \<le> 0"
  shows "solveImpliedGrowthRate PAT marketCap rpct n pe = Some 200"
proof -
  have "solve_loop PAT marketCap (marketCap * 0.00001) rpct n pe 0 (- 90) 200 =
        round2 (200 - (200 - (- 90)) / 2 ^ (maxIterations + 1))"
    using solve_loop_zero_valuation [OF assms(2) assms(4), of 0 maxIterations] by simp
  also have "\<dots> = 200"
    using round2_upper_end by (simp add: maxIterations_def)
  finally show ?thesis
    using assms by (simp add: solveImpliedGrowthRate_def)
qed

theorem solveImpliedGrowthRate_nonpositive_horizon_witness:
  "(0::real) < 1737 \<and> (0::real) < 93800 \<and> (0::real) < 45 \<and> (0::real) \<le> 0 \<and>
   solveImpliedGrowthRate 1737 93800 15 0 45 = Some 200"
  using solveImpliedGrowthRate_nonpositive_horizon [of 1737 93800 45 0 15] by simp

section \<open>The valuation as a formula\<close>

lemma jadd_not_finite: "\<forall>x. b \<noteq> Fin x \<Longrightarrow> jadd a b \<noteq> Fin y"
  by (cases a; cases b) auto

lemma pvEarnings_loop_finite:
  assumes "1 + r \<noteq> 0"
  shows "1 \<le> t \<Longrightarrow>
         pvEarnings_loop PAT g r n t (Fin a) =
           Fin (a + (\<Sum>k = t..\<lfloor>n\<rfloor>. PAT * (1 + g) powi k / (1 + r) powi k))"
proof (induction "nat (\<lfloor>n\<rfloor> + 1 - t)" arbitrary: t a)
  case 0
  then have "\<not> t \<le> \<lfloor>n\<rfloor>" by simp
  then have "\<not> of_int t \<le> n" by (simp add: le_floor_iff)
  with \<open>\<not> t \<le> \<lfloor>n\<rfloor>\<close> show ?case by (subst pvEarnings_loop.simps) simp
next
  case (Suc m)
  then have le: "t \<le> \<lfloor>n\<rfloor>" and m: "m = nat (\<lfloor>n\<rfloor> + 1 - (t + 1))" and t1: "1 \<le> t + 1"
    by simp_all
  from le have le': "of_int t \<le> n" by (simp add: le_floor_iff)
  have split: "{t..\<lfloor>n\<rfloor>} = insert t {t + 1..\<lfloor>n\<rfloor>}"
    using le by (subst simp_from_to) simp
  have "pvEarnings_loop PAT g r n t (Fin a) =
        pvEarnings_loop PAT g r n (t + 1) (Fin (a + PAT * (1 + g) powi t / (1 + r) powi t))"
    using le' Suc.prems assms by (subst pvEarnings_loop.simps) simp
  also have "\<dots> = Fin (a + PAT * (1 + g) powi t / (1 + r) powi t +
                      (\<Sum>k = t + 1..\<lfloor>n\<rfloor>. PAT * (1 + g) powi k / (1 + r) powi k))"
    using Suc.hyps(1) [OF m t1] .
  also have "\<dots> = Fin (a + (\<Sum>k = t..\<lfloor>n\<rfloor>. PAT * (1 + g) powi k / (1 + r) powi k))"
    by (simp add: split)
  finally show ?case .
qed

lemma calculateImpliedEquityValue_finite:
  assumes "0 < PAT" and "0 < pe" and "1 \<le> n" and "rpct \<noteq> - 100"
  shows "calculateImpliedEquityValue PAT gpct rpct (of_int n) pe =
           Fin ((if \<bar>rpct / 100 - gpct / 100\<bar> < 0.0001
                 then \<Sum>t = 1..n. PAT * (1 + gpct / 100) powi t / (1 + rpct / 100) powi t
                 else PAT * (1 + gpct / 100) *
                        ((1 - (1 + gpct / 100) powi n * (1 + rpct / 100) powi (- n)) /
                         (rpct / 100 - gpct / 100)))
                + PAT * (1 + gpct / 100) powi n * pe / (1 + rpct / 100) powi n)"
proof -
  have r: "1 + rpct / 100 \<noteq> 0" using assms(4) by (simp add: field_simps)
  have n0: "0 \<le> n" "\<not> n \<le> 0" using assms(3) by simp_all
  show ?thesis
  proof (cases "\<bar>rpct / 100 - gpct / 100\<bar> < 0.0001")
    case True
    then show ?thesis
      using assms(1,2) n0 r
        pvEarnings_loop_finite [OF r, of 1 PAT "gpct / 100" "of_int n" 0]
      by (simp add: calculateImpliedEquityValue_def Let_def)
  next
    case False
    then have "rpct / 100 - gpct / 100 \<noteq> 0" by auto
    with False show ?thesis
      using assms(1,2) n0 r
      by (simp add: calculateImpliedEquityValue_def Let_def jsub_def jpow_minus_of_int)
  qed
qed

lemma calculateImpliedEquityValue_not_finite:
  assumes "0 < PAT" and "0 < pe" and "1 \<le> n"
  shows "calculateImpliedEquityValue PAT gpct (- 100) (of_int n) pe \<noteq> Fin y"
proof -
  have n0: "0 \<le> n" "\<not> n \<le> 0" "n \<noteq> 0" using assms(3) by simp_all
  have "\<forall>x. jdiv (jmul (jmul (Fin PAT) (jpow (1 + gpct / 100) (of_int n))) (Fin pe))
               (jpow (1 + - 100 / 100) (of_int n)) \<noteq> Fin x"
    using n0 by (simp add: power_int_0_left_if)
  then show ?thesis
    using assms(1,2) n0
    by (simp only: calculateImpliedEquityValue_def Let_def) (simp add: jadd_not_finite)
qed




text \<open>
  C1. For a positive profit, a positive exit multiple and a forecast period that is a whole
  number \<open>n \<ge> 1\<close>, with \<open>g = growthRatePct / 100\<close> and \<open>r = discountRatePct / 100\<close>, the value
  returned is the unrounded sum of the forecast-period component, which is the termwise sum
  \<open>\<Sum>t = 1..n. PAT * (1 + g)^t / (1 + r)^t\<close> when \<open>\<bar>r - g\<bar> < 0.0001\<close> and the growing
  annuity \<open>PAT * (1 + g) * (1 - (1 + g)^n * (1 + r)^(-n)) / (r - g)\<close> otherwise, and of the
  terminal component \<open>PAT * (1 + g)^n * exitPE / (1 + r)^n\<close>. At a discount rate of exactly
  -100 percent both components divide by zero, and the value returned is not a finite
  number.
\<close>

theorem calculateImpliedEquityValue_formula:
  assumes "0 < PAT" and "0 < pe" and "1 \<le> n"
  shows "(rpct \<noteq> - 100 \<longrightarrow>
            calculateImpliedEquityValue PAT gpct rpct (of_int n) pe =
              Fin ((if \<bar>rpct / 100 - gpct / 100\<bar> < 0.0001
                    then \<Sum>t = 1..n. PAT * (1 + gpct / 100) powi t / (1 + rpct / 100) powi t
                    else PAT * (1 + gpct / 100) *
                           ((1 - (1 + gpct / 100) powi n * (1 + rpct / 100) powi (- n)) /
                            (rpct / 100 - gpct / 100)))
                   + PAT * (1 + gpct / 100) powi n * pe / (1 + rpct / 100) powi n)) \<and>
         (rpct = - 100 \<longrightarrow>
            (\<forall>x. calculateImpliedEquityValue PAT gpct rpct (of_int n) pe \<noteq> Fin x))"
  using calculateImpliedEquityValue_finite [OF assms]
    calculateImpliedEquityValue_not_finite [OF assms] by blast

theorem calculateImpliedEquityValue_formula_witness:
  "(0::real) < 100 \<and> (0::real) < 10 \<and> (1::int) \<le> 2 \<and>
   calculateImpliedEquityValue 100 10 15 2 10 = Fin (583000 / 529) \<and>
   calculateImpliedEquityValue 100 10 10.001 2 10 = Fin (14520011000000 / 12100220001) \<and>
   (\<forall>x. calculateImpliedEquityValue 100 10 (- 100) 2 10 \<noteq> Fin x)"
  using calculateImpliedEquityValue_formula [of 100 10 2 15 10]
    calculateImpliedEquityValue_formula [of 100 10 2 "10.001" 10]
    calculateImpliedEquityValue_formula [of 100 10 2 "- 100" 10]
  by (simp add: simp_from_to power_int_minus power2_eq_square)

section \<open>Sign and monotonicity of the valuation\<close>











section \<open>The solver is the bisection of the specification\<close>

lemma solve_loop_trace:
  "i + k \<le> maxIterations \<Longrightarrow>
   \<forall>j<k. \<not> spec_within_tolerance PAT target rpct n pe
             (midpoint ((spec_narrow PAT target rpct n pe ^^ j) (low, high))) \<Longrightarrow>
   i + k = maxIterations \<or>
     spec_within_tolerance PAT target rpct n pe
       (midpoint ((spec_narrow PAT target rpct n pe ^^ k) (low, high))) \<Longrightarrow>
   solve_loop PAT target (target * 0.00001) rpct n pe i low high =
     round2 (midpoint ((spec_narrow PAT target rpct n pe ^^ k) (low, high)))"
proof (induction k arbitrary: i low high)
  case 0
  then show ?case
    by (subst solve_loop.simps)
      (auto simp: midpoint_def spec_within_tolerance_def Let_def)
next
  case (Suc k)
  let ?f = "spec_narrow PAT target rpct n pe"
  from Suc.prems(1) have lt: "i < maxIterations" and le: "(i + 1) + k \<le> maxIterations"
    by simp_all
  from Suc.prems(2) have miss: "\<not> spec_within_tolerance PAT target rpct n pe (midpoint (low, high))"
    by (metis funpow_0 zero_less_Suc)
  obtain low' high' where step: "?f (low, high) = (low', high')"
    by (cases "?f (low, high)")
  have shift: "(?f ^^ Suc j) (low, high) = (?f ^^ j) (low', high')" for j
    by (simp add: funpow_swap1 step)
  have unfold: "solve_loop PAT target (target * 0.00001) rpct n pe i low high =
                solve_loop PAT target (target * 0.00001) rpct n pe (i + 1) low' high'"
    using lt miss step
    by (subst solve_loop.simps)
      (auto simp: midpoint_def spec_within_tolerance_def spec_narrow_def Let_def)
  have rest: "\<forall>j<k. \<not> spec_within_tolerance PAT target rpct n pe (midpoint ((?f ^^ j) (low', high')))"
    using Suc.prems(2) shift by (metis Suc_less_eq)
  have last: "(i + 1) + k = maxIterations \<or>
              spec_within_tolerance PAT target rpct n pe (midpoint ((?f ^^ k) (low', high')))"
    using Suc.prems(3) shift by auto
  show ?case
    using Suc.IH [OF le rest last] unfold shift by simp
qed

text \<open>
  C2. For a positive profit, target and exit multiple the solver is the bisection of the
  specification: it starts from the bracket \<open>(-90, 200)\<close> and tests the midpoints of the
  successive brackets against the tolerance \<open>target * 0.00001\<close>. If the midpoint of the
  bracket after \<open>k < 500\<close> narrowing steps is the first one within the tolerance, the result
  is that midpoint rounded to two decimals; if none of the 500 midpoints tested is within
  the tolerance, the result is the rounded midpoint of the bracket after 500 steps. In both
  cases the result is a number.
\<close>

theorem solveImpliedGrowthRate_bisection:
  assumes "0 < PAT" and "0 < target" and "0 < pe"
  shows "((\<forall>j<500. \<not> spec_within_tolerance PAT target rpct n pe
                      (midpoint (spec_bracket PAT target rpct n pe j))) \<longrightarrow>
          solveImpliedGrowthRate PAT target rpct n pe =
            Some (round2 (midpoint (spec_bracket PAT target rpct n pe 500)))) \<and>
         (\<forall>k<500.
            spec_within_tolerance PAT target rpct n pe
              (midpoint (spec_bracket PAT target rpct n pe k)) \<and>
            (\<forall>j<k. \<not> spec_within_tolerance PAT target rpct n pe
                       (midpoint (spec_bracket PAT target rpct n pe j))) \<longrightarrow>
            solveImpliedGrowthRate PAT target rpct n pe =
              Some (round2 (midpoint (spec_bracket PAT target rpct n pe k))))"
proof -
  have solve: "solveImpliedGrowthRate PAT target rpct n pe =
               Some (solve_loop PAT target (target * 0.00001) rpct n pe 0 (- 90) 200)"
    using assms by (simp add: solveImpliedGrowthRate_def)
  show ?thesis
    unfolding solve spec_bracket_def
    using solve_loop_trace [of 0 _ PAT target rpct n pe "- 90" 200]
    by (auto simp: maxIterations_def)
qed

theorem solveImpliedGrowthRate_bisection_witness:
  "(0::real) < 1 \<and> (0::real) < 161 / 80 \<and>
   spec_within_tolerance 1 (161 / 80) 0 1 1 (midpoint (spec_bracket 1 (161 / 80) 0 1 1 3)) \<and>
   \<not> spec_within_tolerance 1 (161 / 80) 0 1 1 (midpoint (spec_bracket 1 (161 / 80) 0 1 1 0)) \<and>
   \<not> spec_within_tolerance 1 (161 / 80) 0 1 1 (midpoint (spec_bracket 1 (161 / 80) 0 1 1 1)) \<and>
   \<not> spec_within_tolerance 1 (161 / 80) 0 1 1 (midpoint (spec_bracket 1 (161 / 80) 0 1 1 2)) \<and>
   midpoint (spec_bracket 1 (161 / 80) 0 1 1 3) = 5 / 8 \<and>
   solveImpliedGrowthRate 1 (161 / 80) 0 1 1 = Some (63 / 100) \<and>
   solveImpliedGrowthRate 1 1 15 0 45 =
     Some (round2 (midpoint (spec_bracket 1 1 15 0 45 500)))"
proof -
  have b: "spec_bracket 1 (161 / 80) 0 1 1 0 = (- 90, 200)"
    "spec_bracket 1 (161 / 80) 0 1 1 (Suc 0) = (- 90, 55)"
    "spec_bracket 1 (161 / 80) 0 1 1 2 = (- 35 / 2, 55)"
    "spec_bracket 1 (161 / 80) 0 1 1 3 = (- 35 / 2, 75 / 4)"
    by (simp_all add: spec_bracket_def spec_narrow_def eval_nat_numeral
        calculateImpliedEquityValue_def jsub_def)
  have hit: "spec_within_tolerance 1 (161 / 80) 0 1 1 (midpoint (spec_bracket 1 (161 / 80) 0 1 1 3))"
    by (simp add: b midpoint_def spec_within_tolerance_def calculateImpliedEquityValue_def jsub_def)
  have miss: "\<forall>j<3. \<not> spec_within_tolerance 1 (161 / 80) 0 1 1
                       (midpoint (spec_bracket 1 (161 / 80) 0 1 1 j))"
  proof (intro allI impI)
    fix j :: nat
    assume "j < 3"
    then consider "j = 0" | "j = 1" | "j = 2" by linarith
    then show "\<not> spec_within_tolerance 1 (161 / 80) 0 1 1
                   (midpoint (spec_bracket 1 (161 / 80) 0 1 1 j))"
      by cases
        (simp_all add: b midpoint_def spec_within_tolerance_def
          calculateImpliedEquityValue_def jsub_def)
  qed
  have never: "\<forall>j<500. \<not> spec_within_tolerance 1 1 15 0 45 (midpoint (spec_bracket 1 1 15 0 45 j))"
    by (simp add: spec_within_tolerance_def calculateImpliedEquityValue_def jsub_def)
  have mid: "midpoint (spec_bracket 1 (161 / 80) 0 1 1 3) = 5 / 8"
    by (simp add: b midpoint_def)
  have r: "round2 (5 / 8) = 63 / 100"
    by (simp add: round2_def)
  have pos: "(0::real) < 1" "(0::real) < 161 / 80" by simp_all
  have three: "(3::nat) < 500" by simp
  from solveImpliedGrowthRate_bisection [OF pos(1) pos(2) pos(1), of 0 1] three hit miss
  have "solveImpliedGrowthRate 1 (161 / 80) 0 1 1 =
        Some (round2 (midpoint (spec_bracket 1 (161 / 80) 0 1 1 3)))"
    by blast
  then have "solveImpliedGrowthRate 1 (161 / 80) 0 1 1 = Some (63 / 100)"
    by (simp only: mid r)
  moreover from solveImpliedGrowthRate_bisection [of 1 1 45 15 0] never
  have "solveImpliedGrowthRate 1 1 15 0 45 = Some (round2 (midpoint (spec_bracket 1 1 15 0 45 500)))"
    by simp
  moreover have "(0::nat) < 3" "(1::nat) < 3" "(2::nat) < 3" by simp_all
  ultimately show ?thesis using pos hit miss mid by blast
qed

section \<open>The round trip through the solver\<close>













end
